theory Spec2Isabelle
  imports Complex_Main
begin

section \<open>Solar position: time and angle conversions, series formulas, closed forms\<close>

text \<open>
  The definitions below embed functions of \<^verbatim>\<open>src/energy_bal_Init.py\<close>.
  NumPy evaluates every expression of these functions elementwise over its array
  arguments; unless a definition works on lists, it gives the value at one index position.

  Finite floating-point values are idealised as real numbers. Rounding is modelled in one
  place, the argument of the arccosine of \<^verbatim>\<open>solar_zenith_analytical\<close>, where the source
  has no guard against it and the result depends on it. What is modelled of IEEE arithmetic
  throughout is its special values, because the source relies on them: a division by zero
  and an arccosine outside its domain do not raise in NumPy, they produce an infinity or a
  NaN that flows on through the computation.
\<close>

subsection \<open>NumPy floating-point values\<close>

datatype npfloat = Fin real | PInf | MInf | NaN

text \<open>The sign of a value that is not NaN, as an integer in \<open>{-1, 0, 1}\<close>.\<close>

fun np_signum :: "npfloat \<Rightarrow> int" where
  "np_signum (Fin x) = (if x < 0 then - 1 else if x = 0 then 0 else 1)"
| "np_signum PInf = 1"
| "np_signum MInf = - 1"
| "np_signum NaN = 0"

fun np_neg :: "npfloat \<Rightarrow> npfloat" where
  "np_neg (Fin x) = Fin (- x)"
| "np_neg PInf = MInf"
| "np_neg MInf = PInf"
| "np_neg NaN = NaN"

fun np_add :: "npfloat \<Rightarrow> npfloat \<Rightarrow> npfloat" where
  "np_add NaN b = NaN"
| "np_add a NaN = NaN"
| "np_add (Fin x) (Fin y) = Fin (x + y)"
| "np_add PInf MInf = NaN"
| "np_add MInf PInf = NaN"
| "np_add PInf b = PInf"
| "np_add a PInf = PInf"
| "np_add MInf b = MInf"
| "np_add a MInf = MInf"

definition np_sub :: "npfloat \<Rightarrow> npfloat \<Rightarrow> npfloat" where
  "np_sub a b = np_add a (np_neg b)"

text \<open>An infinity times zero is NaN; otherwise the signs multiply.\<close>

definition np_signed_inf :: "int \<Rightarrow> npfloat" where
  "np_signed_inf s = (if s = 0 then NaN else if 0 < s then PInf else MInf)"

fun np_mul :: "npfloat \<Rightarrow> npfloat \<Rightarrow> npfloat" where
  "np_mul NaN b = NaN"
| "np_mul a NaN = NaN"
| "np_mul (Fin x) (Fin y) = Fin (x * y)"
| "np_mul a b = np_signed_inf (np_signum a * np_signum b)"

text \<open>
  Division does not raise on arrays and NumPy scalars: \<open>x / 0\<close> is an infinity with the
  sign of \<open>x\<close>, and \<open>0 / 0\<close> is NaN. (The reals have one zero; the sign of a
  floating-point zero divisor is not modelled.)
\<close>

fun np_div :: "npfloat \<Rightarrow> npfloat \<Rightarrow> npfloat" where
  "np_div NaN b = NaN"
| "np_div a NaN = NaN"
| "np_div (Fin x) (Fin y) = (if y = 0 then np_signed_inf (np_signum (Fin x)) else Fin (x / y))"
| "np_div (Fin x) b = Fin 0"
| "np_div a (Fin y) = np_signed_inf (np_signum a * (if y < 0 then - 1 else 1))"
| "np_div a b = NaN"

text \<open>\<^verbatim>\<open>np.arccos\<close>: NaN outside \<open>[-1, 1]\<close>, without raising.\<close>

fun np_arccos :: "npfloat \<Rightarrow> npfloat" where
  "np_arccos (Fin x) = (if - 1 \<le> x \<and> x \<le> 1 then Fin (arccos x) else NaN)"
| "np_arccos a = NaN"

text \<open>
  \<^verbatim>\<open>np.isclose(a, b, rtol=0.0, atol=1e-8)\<close> for a finite \<open>b\<close>:
  \<open>|a - b| \<le> atol + rtol * |b|\<close>; false when \<open>a\<close> is NaN or infinite.
\<close>

fun np_isclose :: "npfloat \<Rightarrow> real \<Rightarrow> bool" where
  "np_isclose (Fin x) b = (\<bar>x - b\<bar> \<le> 1 / 10 ^ 8)"
| "np_isclose a b = False"

definition np_where :: "bool \<Rightarrow> npfloat \<Rightarrow> npfloat \<Rightarrow> npfloat" where
  "np_where c a b = (if c then a else b)"

definition radians :: "real \<Rightarrow> real" where
  "radians d = d * pi / 180"

definition degrees :: "real \<Rightarrow> real" where
  "degrees r = r * 180 / pi"

definition np_degrees :: "npfloat \<Rightarrow> npfloat" where
  "np_degrees a = np_mul a (Fin (180 / pi))"

subsection \<open>Day angle and equation of time\<close>

text \<open>\<^verbatim>\<open>_calculate_simple_day_angle(dayofyear, offset=1)\<close>\<close>

definition calculate_simple_day_angle :: "real \<Rightarrow> real \<Rightarrow> real" where
  "calculate_simple_day_angle dayofyear offset = (2 * pi / 365) * (dayofyear - offset)"

text \<open>\<^verbatim>\<open>equation_of_time_pvcdrom(dayofyear)\<close>; the day angle is taken with the default offset 1.\<close>

definition equation_of_time_pvcdrom :: "real \<Rightarrow> real" where
  "equation_of_time_pvcdrom dayofyear =
     (let bday = calculate_simple_day_angle dayofyear 1 - (2 * pi / 365) * 80
      in 9.87 * sin (2 * bday) - 7.53 * cos bday - 1.5 * sin bday)"

subsection \<open>Closed-form zenith\<close>

text \<open>
  \<^verbatim>\<open>solar_zenith_analytical(latitude, hourangle, declination)\<close>, angles in radians.
  The double that the source computes for the argument of \<^verbatim>\<open>np.arccos\<close> is the exact
  value plus a rounding error, the parameter \<open>err\<close>: a few units of \<open>2^-53\<close>, of either
  sign, fixed at each input by the floating-point arithmetic. The source applies
  \<^verbatim>\<open>np.arccos\<close> to the computed value as it is; unlike
  \<^verbatim>\<open>solar_azimuth_analytical\<close> it does not clamp it. With \<open>err = 0\<close> the definition is
  the formula in exact arithmetic.
\<close>

definition solar_zenith_analytical :: "real \<Rightarrow> real \<Rightarrow> real \<Rightarrow> real \<Rightarrow> npfloat" where
  "solar_zenith_analytical err latitude hourangle declination =
     np_arccos (Fin (cos declination * cos latitude * cos hourangle
                     + sin declination * sin latitude + err))"

subsection \<open>Closed-form azimuth\<close>

text \<open>
  \<^verbatim>\<open>solar_azimuth_analytical(latitude, hourangle, declination, zenith)\<close>, angles in
  radians. \<open>cos_azi\<close> is the value the source holds in its variable of that name after the
  three \<^verbatim>\<open>np.where\<close> replacements; the function's last line applies the sign of the
  hour angle.
\<close>

definition cos_azi :: "real \<Rightarrow> real \<Rightarrow> real \<Rightarrow> npfloat" where
  "cos_azi latitude declination zenith =
     (let numer = cos zenith * sin latitude - sin declination;
          denom = sin zenith * cos latitude;
          cos_azi = np_div (Fin numer) (Fin denom);
          cos_azi = np_where (np_isclose (Fin denom) 0) (Fin 1) cos_azi;
          cos_azi = np_where (np_isclose cos_azi 1) (Fin 1) cos_azi;
          cos_azi = np_where (np_isclose cos_azi (- 1)) (Fin (- 1)) cos_azi
      in cos_azi)"

definition solar_azimuth_analytical :: "real \<Rightarrow> real \<Rightarrow> real \<Rightarrow> real \<Rightarrow> npfloat" where
  "solar_azimuth_analytical latitude hourangle declination zenith =
     (let sign_ha = sgn hourangle
      in np_add (np_mul (Fin sign_ha) (np_arccos (cos_azi latitude declination zenith))) (Fin pi))"

text \<open>
  The cosine ratio as the specification words it: \<open>1\<close> where the denominator is within
  \<open>1e-8\<close> of zero, \<open>\<plusminus>1\<close> where the quotient is within \<open>1e-8\<close> of that bound, the
  quotient otherwise.
\<close>

definition clamped_cosine_ratio :: "real \<Rightarrow> real \<Rightarrow> real \<Rightarrow> real" where
  "clamped_cosine_ratio latitude declination zenith =
     (let numer = cos zenith * sin latitude - sin declination;
          denom = sin zenith * cos latitude
      in if \<bar>denom\<bar> \<le> 1 / 10 ^ 8 then 1
         else if \<bar>numer / denom - 1\<bar> \<le> 1 / 10 ^ 8 then 1
         else if \<bar>numer / denom + 1\<bar> \<le> 1 / 10 ^ 8 then - 1
         else numer / denom)"

subsection \<open>Timezone-aware timestamps\<close>

text \<open>
  A timezone-aware \<^verbatim>\<open>DatetimeIndex\<close> holds, per element, the instant as nanoseconds
  since the epoch in UTC (what \<^verbatim>\<open>times.view(np.int64)\<close> returns), together with one
  timezone for the whole index. Of the timezone the functions below use two things:
  the UTC offset in force at an instant, and the UTC offset that localization gives to a
  wall-clock reading. Offsets are in nanoseconds.
\<close>

record timezone =
  utcoffset :: "int \<Rightarrow> int"
  localoffset :: "int \<Rightarrow> int"

definition NS_PER_HR :: real where
  "NS_PER_HR = 10 ^ 9 * 3600"

definition NS_PER_DAY :: int where
  "NS_PER_DAY = 24 * 3600 * 10 ^ 9"

text \<open>Arithmetic on \<^verbatim>\<open>int64\<close> arrays wraps around.\<close>

definition wrap64 :: "int \<Rightarrow> int" where
  "wrap64 x = (x + 2 ^ 63) mod 2 ^ 64 - 2 ^ 63"

text \<open>
  The pandas operations the source calls, on one element.
  \<^verbatim>\<open>times.tz_localize(None)\<close> drops the timezone and keeps the wall-clock reading;
  \<^verbatim>\<open>normalize()\<close> on naive times floors to midnight; on timezone-aware times it floors
  the wall-clock reading to midnight and localizes that midnight again, so that its
  \<^verbatim>\<open>int64\<close> view is the UTC instant of local midnight.
\<close>

definition tz_localize_None :: "timezone \<Rightarrow> int \<Rightarrow> int" where
  "tz_localize_None tz t = t + utcoffset tz t"

definition normalize_naive :: "int \<Rightarrow> int" where
  "normalize_naive w = w - w mod NS_PER_DAY"

definition normalize_aware :: "timezone \<Rightarrow> int \<Rightarrow> int" where
  "normalize_aware tz t =
     (let midnight = normalize_naive (tz_localize_None tz t)
      in midnight - localoffset tz midnight)"

text \<open>
  Two kinds of timezone. One has a fixed offset. The other is \<^verbatim>\<open>America/Denver\<close>
  around its change to daylight saving time on 12 March 2023: the offset is \<open>-7 h\<close> up
  to 09:00 UTC of that day (02:00 on the wall clock) and \<open>-6 h\<close> from then on.
\<close>

definition fixed_offset :: "int \<Rightarrow> timezone" where
  "fixed_offset off = \<lparr>utcoffset = (\<lambda>t. off), localoffset = (\<lambda>w. off)\<rparr>"

definition hours_ns :: "int \<Rightarrow> int" where
  "hours_ns h = h * 3600 * 10 ^ 9"

definition seconds_ns :: "int \<Rightarrow> int" where
  "seconds_ns s = s * 10 ^ 9"

definition UTC :: timezone where
  "UTC = fixed_offset 0"

definition America_Denver_2023 :: timezone where
  "America_Denver_2023 =
     \<lparr>utcoffset = (\<lambda>t. if t < seconds_ns 1678611600 then hours_ns (- 7) else hours_ns (- 6)),
      localoffset = (\<lambda>w. if w < seconds_ns 1678586400 then hours_ns (- 7) else hours_ns (- 6))\<rparr>"

text \<open>The number of the local calendar day of an instant, counted from the epoch.\<close>

definition local_day :: "timezone \<Rightarrow> int \<Rightarrow> int" where
  "local_day tz t = tz_localize_None tz t div NS_PER_DAY"

text \<open>
  In the definitions below the parameter \<^verbatim>\<open>times\<close> of the source is written \<open>time\<close>
  (\<open>times\<close> is a constant of HOL), and stands for one element of the index.
\<close>

text \<open>\<^verbatim>\<open>hour_angle(times, longitude, equation_of_time)\<close>, in degrees.\<close>

definition hour_angle :: "timezone \<Rightarrow> int \<Rightarrow> real \<Rightarrow> real \<Rightarrow> real" where
  "hour_angle tz time longitude equation_of_time =
     (let naive_times = tz_localize_None tz time;
          hrs_minus_tzs = 1 / NS_PER_HR * real_of_int
            (wrap64 (wrap64 (wrap64 (2 * time) - normalize_aware tz time) - naive_times))
      in 15 * (hrs_minus_tzs - 12) + longitude + equation_of_time / 4)"

text \<open>\<^verbatim>\<open>_hour_angle_to_hours(times, hourangle, longitude, equation_of_time)\<close>\<close>

definition hour_angle_to_hours :: "timezone \<Rightarrow> int \<Rightarrow> npfloat \<Rightarrow> real \<Rightarrow> real \<Rightarrow> npfloat" where
  "hour_angle_to_hours tz time hourangle longitude equation_of_time =
     (let naive_times = tz_localize_None tz time;
          tzs = 1 / NS_PER_HR * real_of_int (wrap64 (naive_times - time));
          hours = np_add (np_add
                    (np_div (np_sub (np_sub hourangle (Fin longitude)) (Fin (equation_of_time / 4)))
                            (Fin 15))
                    (Fin 12)) (Fin tzs)
      in hours)"

text \<open>\<^verbatim>\<open>_times_to_hours_after_local_midnight(times)\<close>\<close>

definition times_to_hours_after_local_midnight :: "timezone \<Rightarrow> int \<Rightarrow> real" where
  "times_to_hours_after_local_midnight tz time =
     (let time = tz_localize_None tz time;
          hrs = 1 / NS_PER_HR * real_of_int (wrap64 (time - normalize_naive time))
      in hrs)"

text \<open>
  \<^verbatim>\<open>.astype(np.int64)\<close> of a floating-point value truncates towards zero. For NaN, an
  infinity or a value out of range the conversion is undefined in C and yields a value
  fixed by the platform, the parameter \<open>indef\<close> here; on x86-64 it is the
  ``integer indefinite'' \<open>-2^63\<close>.
\<close>

definition astype_int64 :: "int \<Rightarrow> npfloat \<Rightarrow> int" where
  "astype_int64 indef a =
     (case a of
        Fin x \<Rightarrow>
          (let n = (if x < 0 then \<lceil>x\<rceil> else \<lfloor>x\<rfloor>)
           in if - (2 ^ 63) \<le> n \<and> n < 2 ^ 63 then n else indef)
      | _ \<Rightarrow> indef)"

definition x86_64_indefinite :: int where
  "x86_64_indefinite = - (2 ^ 63)"

text \<open>
  \<^verbatim>\<open>.astype('datetime64[ns]')\<close> reads an \<^verbatim>\<open>int64\<close> as nanoseconds since the epoch;
  the one value \<open>-2^63\<close> is the missing timestamp NaT.
\<close>

datatype datetime64 = NaT | Datetime int

definition astype_datetime64 :: "int \<Rightarrow> datetime64" where
  "astype_datetime64 v = (if v = - (2 ^ 63) then NaT else Datetime v)"

text \<open>
  \<^verbatim>\<open>_local_times_from_hours_since_midnight(times, hours)\<close>. The result is the
  wall-clock reading to which the source attaches the timezone of \<open>times\<close>.
\<close>

definition local_times_from_hours_since_midnight ::
    "int \<Rightarrow> timezone \<Rightarrow> int \<Rightarrow> npfloat \<Rightarrow> datetime64" where
  "local_times_from_hours_since_midnight indef tz time hours =
     (let naive_times = tz_localize_None tz time
      in astype_datetime64
           (wrap64 (normalize_naive naive_times
                    + astype_int64 indef (np_mul hours (Fin NS_PER_HR)))))"

text \<open>
  \<^verbatim>\<open>sun_rise_set_transit_geometric(times, latitude, longitude, declination,
  equation_of_time)\<close>; latitude and longitude in degrees, declination in radians. The
  source file ends with the assignment of \<open>transit\<close>; the values returned are the three
  that the docstring names: sunrise, sunset and transit. (The real tangent has poles at
  the odd multiples of \<open>\<pi>/2\<close>, where \<^term>\<open>tan\<close> is \<open>0\<close>; nothing below evaluates
  it there.)
\<close>

definition sun_rise_set_transit_geometric ::
    "int \<Rightarrow> timezone \<Rightarrow> int \<Rightarrow> real \<Rightarrow> real \<Rightarrow> real \<Rightarrow> real
       \<Rightarrow> datetime64 \<times> datetime64 \<times> datetime64" where
  "sun_rise_set_transit_geometric indef tz time latitude longitude declination equation_of_time =
     (let latitude_rad = radians latitude;
          sunset_angle_rad = np_arccos (Fin (- tan declination * tan latitude_rad));
          sunset_angle = np_degrees sunset_angle_rad;
          sunrise_angle = np_neg sunset_angle;
          sunrise_hour = hour_angle_to_hours tz time sunrise_angle longitude equation_of_time;
          sunset_hour = hour_angle_to_hours tz time sunset_angle longitude equation_of_time;
          transit_hour = hour_angle_to_hours tz time (Fin 0) longitude equation_of_time;
          sunrise = local_times_from_hours_since_midnight indef tz time sunrise_hour;
          sunset = local_times_from_hours_since_midnight indef tz time sunset_hour;
          transit = local_times_from_hours_since_midnight indef tz time transit_hour
      in (sunrise, sunset, transit))"

text \<open>The value of the variable \<open>sunset_angle\<close> of that function, in degrees.\<close>

definition sunset_hour_angle :: "real \<Rightarrow> real \<Rightarrow> npfloat" where
  "sunset_hour_angle latitude declination =
     np_degrees (np_arccos (Fin (- tan declination * tan (radians latitude))))"

subsection \<open>Iterative ephemeris: Kepler's equation\<close>

datatype error = ValueError | ZeroDivisionError

text \<open>\<^verbatim>\<open>np.max\<close> raises \<^verbatim>\<open>ValueError\<close> on an array of size zero.\<close>

fun np_max :: "real list \<Rightarrow> error + real" where
  "np_max [] = Inl ValueError"
| "np_max (x # xs) = Inr (fold max xs x)"

definition abs_diff :: "real list \<Rightarrow> real list \<Rightarrow> real list" where
  "abs_diff xs ys = map2 (\<lambda>a b. \<bar>a - b\<bar>) xs ys"

text \<open>The loop body's assignment \<^verbatim>\<open>MeanAnom + np.degrees(Eccen)*np.sin(np.radians(E))\<close>.\<close>

definition kepler_update :: "real list \<Rightarrow> real list \<Rightarrow> real list \<Rightarrow> real list" where
  "kepler_update MeanAnom Eccen E =
     map (\<lambda>(M, e, x). M + degrees e * sin (radians x)) (zip MeanAnom (zip Eccen E))"

text \<open>
  The \<^verbatim>\<open>while\<close> loop of \<^verbatim>\<open>ephemeris\<close>. The source puts no bound on the iterations;
  \<open>fuel\<close> is the number of times the body may run, and \<open>None\<close> means that the loop
  condition still held when the fuel was used up.
\<close>

fun ephemeris_kepler_loop ::
    "nat \<Rightarrow> real list \<Rightarrow> real list \<Rightarrow> real list \<Rightarrow> real list \<Rightarrow> (error + real list) option" where
  "ephemeris_kepler_loop fuel MeanAnom Eccen E EccenAnom =
     (case np_max (abs_diff EccenAnom E) of
        Inl err \<Rightarrow> Some (Inl err)
      | Inr d \<Rightarrow>
          if d > 0.0001 then
            (case fuel of
               0 \<Rightarrow> None
             | Suc n \<Rightarrow>
                 ephemeris_kepler_loop n MeanAnom Eccen EccenAnom
                   (kepler_update MeanAnom Eccen EccenAnom))
          else Some (Inr EccenAnom))"

text \<open>
  The loop with its initialisation \<^verbatim>\<open>EccenAnom = MeanAnom; E = 0\<close>; the scalar \<open>0\<close>
  is broadcast against the array.
\<close>

definition ephemeris_kepler :: "nat \<Rightarrow> real list \<Rightarrow> real list \<Rightarrow> (error + real list) option" where
  "ephemeris_kepler fuel MeanAnom Eccen =
     ephemeris_kepler_loop fuel MeanAnom Eccen (replicate (length MeanAnom) 0) MeanAnom"

subsection \<open>Iterative ephemeris: refraction\<close>

text \<open>
  The refraction lines of \<^verbatim>\<open>ephemeris\<close>, from the geometric elevation \<open>SunEl\<close> in
  degrees to the apparent elevation. The three masked assignments run in the source's
  order, each overwriting \<open>Refract\<close> where its mask holds. With Python numbers for
  temperature and pressure, the division by \<open>273 + temperature\<close> raises when that is zero.
\<close>

definition ephemeris_refract :: "real \<Rightarrow> real" where
  "ephemeris_refract SunEl =
     (let Elevation = SunEl;
          TanEl = tan (radians Elevation);
          Refract = 0;
          Refract = (if Elevation > 5 \<and> Elevation \<le> 85
                     then 58.1 / TanEl - 0.07 / TanEl ^ 3 + 0.000086 / TanEl ^ 5
                     else Refract);
          Refract = (if Elevation > - 0.575 \<and> Elevation \<le> 5
                     then Elevation *
                          (- 518.2 + Elevation * (103.4 + Elevation * (- 12.79 + Elevation * 0.711)))
                          + 1735
                     else Refract);
          Refract = (if Elevation > - 1 \<and> Elevation \<le> - 0.575
                     then - 20.774 / TanEl
                     else Refract)
      in Refract)"

definition ephemeris_apparent_elevation :: "real \<Rightarrow> real \<Rightarrow> real \<Rightarrow> error + real" where
  "ephemeris_apparent_elevation SunEl temperature pressure =
     (let Refract = ephemeris_refract SunEl
      in if 273 + temperature = 0 then Inl ZeroDivisionError
         else (let Refract = Refract * ((283 / (273 + temperature)) * (pressure / 101325) / 3600);
                   ApparentSunEl = SunEl + Refract
               in Inr ApparentSunEl))"

text \<open>The refraction term as the specification words it: one formula per elevation range.\<close>

definition refraction_piecewise :: "real \<Rightarrow> real" where
  "refraction_piecewise el =
     (if 5 < el \<and> el \<le> 85 then
        58.1 / tan (radians el) - 0.07 / tan (radians el) ^ 3 + 0.000086 / tan (radians el) ^ 5
      else if - 0.575 < el \<and> el \<le> 5 then
        el * (- 518.2 + el * (103.4 + el * (- 12.79 + el * 0.711))) + 1735
      else if - 1 < el \<and> el \<le> - 0.575 then
        - 20.774 / tan (radians el)
      else 0)"

section \<open>Properties\<close>

text \<open>
  C9. The three-term equation of time is
  \<open>9.87 sin(2b) - 7.53 cos(b) - 1.5 sin(b)\<close> with the day angle referenced to day 81,
  \<open>b = (2\<pi>/365) (dayofyear - 81)\<close>, for every day of year.
\<close>

theorem equation_of_time_pvcdrom_day81:
  "equation_of_time_pvcdrom d =
     9.87 * sin (2 * ((2 * pi / 365) * (d - 81)))
       - 7.53 * cos ((2 * pi / 365) * (d - 81))
       - 1.5 * sin ((2 * pi / 365) * (d - 81))"
proof -
  have b: "calculate_simple_day_angle d 1 - (2 * pi / 365) * 80 = (2 * pi / 365) * (d - 81)"
    by (simp add: calculate_simple_day_angle_def field_simps)
  show ?thesis
    unfolding equation_of_time_pvcdrom_def Let_def b ..
qed

text \<open>
  In exact arithmetic the zenith at hour angle zero is the absolute difference of latitude
  and declination, \<open>arccos(cos \<delta> cos \<phi> + sin \<delta> sin \<phi>) = |\<phi> - \<delta>|\<close>, whenever that
  difference is at most \<open>\<pi>\<close>.
\<close>

lemma solar_zenith_analytical_noon_exact:
  assumes "\<bar>latitude - declination\<bar> \<le> pi"
  shows "solar_zenith_analytical 0 latitude 0 declination = Fin \<bar>latitude - declination\<bar>"
proof -
  have arg: "cos declination * cos latitude * cos 0 + sin declination * sin latitude + 0
             = cos \<bar>latitude - declination\<bar>"
    by (simp add: cos_diff mult.commute)
  have "arccos (cos \<bar>latitude - declination\<bar>) = \<bar>latitude - declination\<bar>"
    using assms by (intro arccos_cos) simp_all
  then show ?thesis
    unfolding solar_zenith_analytical_def arg by simp
qed

text \<open>
  Where latitude and declination are equal the exact argument is \<open>1\<close>, the upper end of
  the domain of the arccosine: any rounding upwards gives NaN.
\<close>

lemma solar_zenith_analytical_noon_rounded_up:
  assumes "0 < err"
  shows "solar_zenith_analytical err latitude 0 latitude = NaN"
proof -
  have "cos latitude * cos latitude * cos 0 + sin latitude * sin latitude + err = 1 + err"
    using sin_cos_squared_add3 [of latitude] by simp
  then show ?thesis
    unfolding solar_zenith_analytical_def using assms by simp
qed

text \<open>
  C8: at hour angle zero the zenith should be \<open>|latitude - declination|\<close> within floating
  tolerance. At latitude = declination = \<open>-0.963\<close> radians (55.2 degrees south) the double
  computed for the argument of the arccosine is \<open>1.0000000000000002 = 1 + 2^-52\<close>, and the
  zenith returned is NaN; in exact arithmetic it is \<open>0\<close>.
\<close>

theorem solar_zenith_analytical_noon_rounding:
  "solar_zenith_analytical (1 / 2 ^ 52) (- 0.963) 0 (- 0.963) = NaN
   \<and> solar_zenith_analytical 0 (- 0.963) 0 (- 0.963) = Fin 0"
proof -
  have "solar_zenith_analytical (1 / 2 ^ 52) (- 0.963) 0 (- 0.963) = NaN"
    by (rule solar_zenith_analytical_noon_rounded_up) simp
  moreover have "solar_zenith_analytical 0 (- 0.963) 0 (- 0.963) = Fin \<bar>- 0.963 - (- 0.963)\<bar>"
    by (rule solar_zenith_analytical_noon_exact) simp
  ultimately show ?thesis by simp
qed

subsection \<open>Closed-form azimuth\<close>

lemma cos_azi_clamped: "cos_azi lat dec zen = Fin (clamped_cosine_ratio lat dec zen)"
  by (simp add: cos_azi_def clamped_cosine_ratio_def Let_def np_where_def)

lemma azimuth_of_ratio:
  assumes "- 1 \<le> clamped_cosine_ratio lat dec zen" "clamped_cosine_ratio lat dec zen \<le> 1"
  shows "solar_azimuth_analytical lat ha dec zen
           = Fin (sgn ha * arccos (clamped_cosine_ratio lat dec zen) + pi)"
  using assms by (simp add: solar_azimuth_analytical_def cos_azi_clamped Let_def)

lemma signed_arccos_range:
  assumes "- 1 \<le> c" "c \<le> 1"
  shows "0 \<le> sgn ha * arccos c + pi" "sgn ha * arccos c + pi \<le> 2 * pi"
proof -
  have a: "0 \<le> arccos c" "arccos c \<le> pi"
    using assms arccos_lbound arccos_ubound by auto
  consider "ha < 0" | "ha = 0" | "0 < ha" by linarith
  then show "0 \<le> sgn ha * arccos c + pi"
    using a by cases simp_all
  consider "ha < 0" | "ha = 0" | "0 < ha" by linarith
  then show "sgn ha * arccos c + pi \<le> 2 * pi"
    using a by cases simp_all
qed

lemma sin_pi8_ge: "1 / 4 \<le> sin (pi / 8)"
proof -
  have "sin (2 * (pi / 8)) = 2 * sin (pi / 8) * cos (pi / 8)"
    by (rule sin_double)
  then have d: "sqrt 2 / 2 = 2 * (sin (pi / 8) * cos (pi / 8))"
    by (simp add: sin_45)
  have s: "0 \<le> sin (pi / 8)"
    by (intro sin_ge_zero) simp_all
  have "sin (pi / 8) * cos (pi / 8) \<le> sin (pi / 8) * 1"
    using s by (intro mult_left_mono) simp_all
  then have "sqrt 2 / 2 \<le> 2 * sin (pi / 8)"
    unfolding d by simp
  moreover have "1 \<le> sqrt 2" by simp
  ultimately show ?thesis by linarith
qed

lemma cos_3pi8: "cos (3 * pi / 8) = sin (pi / 8)"
proof -
  have "cos (3 * pi / 8) = sin (pi / 2 - 3 * pi / 8)"
    using cos_sin_eq [of "3 * pi / 8"] by simp
  also have "pi / 2 - 3 * pi / 8 = pi / 8" by simp
  finally show ?thesis .
qed

lemma sin_3pi8: "sin (3 * pi / 8) = cos (pi / 8)"
proof -
  have "sin (3 * pi / 8) = cos (pi / 2 - 3 * pi / 8)"
    using sin_cos_eq [of "3 * pi / 8"] by simp
  also have "pi / 2 - 3 * pi / 8 = pi / 8" by simp
  finally show ?thesis .
qed

lemma midnight_sun_ratio: "clamped_cosine_ratio (3 * pi / 8) (pi / 8) (pi / 2) = - 1"
proof -
  have p: "0 < sin (pi / 8)" using sin_pi8_ge by linarith
  have n: "\<not> sin (pi / 8) \<le> 1 / 10 ^ 8" using sin_pi8_ge by simp
  show ?thesis
    using p n by (simp add: clamped_cosine_ratio_def cos_3pi8)
qed

text \<open>
  C5, as amended. Whenever the clamped cosine ratio lies in \<open>[-1, 1]\<close> (it is \<open>1\<close> where the
  denominator is within \<open>1e-8\<close> of zero and \<open>\<plusminus>1\<close> where the quotient is within \<open>1e-8\<close> of
  that bound), \<^const>\<open>solar_azimuth_analytical\<close> returns
  \<open>sign(hourangle) * arccos(ratio) + \<pi>\<close>, a value of the closed interval \<open>[0, 2\<pi>]\<close>;
  at the poles it returns \<open>\<pi>\<close>, and no input makes it raise.
\<close>

theorem solar_azimuth_analytical_range:
  assumes "- 1 \<le> clamped_cosine_ratio latitude declination zenith"
    and "clamped_cosine_ratio latitude declination zenith \<le> 1"
  shows "cos_azi latitude declination zenith
           = Fin (clamped_cosine_ratio latitude declination zenith)
         \<and> solar_azimuth_analytical latitude hourangle declination zenith
           = Fin (sgn hourangle * arccos (clamped_cosine_ratio latitude declination zenith) + pi)
         \<and> 0 \<le> sgn hourangle * arccos (clamped_cosine_ratio latitude declination zenith) + pi
         \<and> sgn hourangle * arccos (clamped_cosine_ratio latitude declination zenith) + pi \<le> 2 * pi
         \<and> solar_azimuth_analytical (pi / 2) hourangle declination zenith = Fin pi
         \<and> solar_azimuth_analytical (- pi / 2) hourangle declination zenith = Fin pi"
proof -
  have p1: "clamped_cosine_ratio (pi / 2) declination zenith = 1"
    by (simp add: clamped_cosine_ratio_def)
  have p2: "clamped_cosine_ratio (- pi / 2) declination zenith = 1"
    by (simp add: clamped_cosine_ratio_def)
  have "solar_azimuth_analytical (pi / 2) hourangle declination zenith = Fin pi"
    using azimuth_of_ratio [of "pi / 2" declination zenith hourangle] p1 by simp
  moreover have "solar_azimuth_analytical (- pi / 2) hourangle declination zenith = Fin pi"
    using azimuth_of_ratio [of "- pi / 2" declination zenith hourangle] p2 by simp
  ultimately show ?thesis
    using cos_azi_clamped azimuth_of_ratio [OF assms] signed_arccos_range [OF assms]
    by simp
qed

theorem solar_azimuth_analytical_range_witness:
  "- 1 \<le> clamped_cosine_ratio 0 0 (pi / 2) \<and> clamped_cosine_ratio 0 0 (pi / 2) \<le> 1
   \<and> solar_zenith_analytical 0 0 (pi / 2) 0 = Fin (pi / 2)
   \<and> solar_azimuth_analytical 0 (pi / 2) 0 (pi / 2) = Fin (3 * pi / 2)"
proof -
  have r: "clamped_cosine_ratio 0 0 (pi / 2) = 0"
    by (simp add: clamped_cosine_ratio_def)
  have h: "- 1 \<le> clamped_cosine_ratio 0 0 (pi / 2)" "clamped_cosine_ratio 0 0 (pi / 2) \<le> 1"
    by (simp_all add: r)
  have z: "solar_zenith_analytical 0 0 (pi / 2) 0 = Fin (pi / 2)"
    by (simp add: solar_zenith_analytical_def)
  show ?thesis
    using h z solar_azimuth_analytical_range [OF h, of "pi / 2"] by (simp add: r)
qed

text \<open>
  C5 as stated fails: the interval is not half-open. At latitude \<open>3\<pi>/8\<close> (67.5 degrees
  north) with declination \<open>\<pi>/8\<close> and hour angle \<open>\<pi>\<close> (the midnight sun on the horizon, due
  north) the zenith is \<open>\<pi>/2\<close> (in exact arithmetic), the denominator is \<open>sin(\<pi>/8) \<ge> 1/4\<close>, the ratio is
  \<open>-1\<close> and the azimuth returned is \<open>2\<pi>\<close> itself.
\<close>

theorem solar_azimuth_analytical_range_counterexample:
  "solar_zenith_analytical 0 (3 * pi / 8) pi (pi / 8) = Fin (pi / 2)
   \<and> 1 / 4 \<le> sin (pi / 2) * cos (3 * pi / 8)
   \<and> solar_azimuth_analytical (3 * pi / 8) pi (pi / 8) (pi / 2) = Fin (2 * pi)
   \<and> \<not> (\<exists>a. solar_azimuth_analytical (3 * pi / 8) pi (pi / 8) (pi / 2) = Fin a
            \<and> 0 \<le> a \<and> a < 2 * pi)"
proof -
  have "cos (pi / 8) * cos (3 * pi / 8) * cos pi + sin (pi / 8) * sin (3 * pi / 8) + 0 = 0"
    by (simp add: cos_3pi8 sin_3pi8)
  then have z: "solar_zenith_analytical 0 (3 * pi / 8) pi (pi / 8) = Fin (pi / 2)"
    unfolding solar_zenith_analytical_def by simp
  have d: "1 / 4 \<le> sin (pi / 2) * cos (3 * pi / 8)"
    using sin_pi8_ge by (simp add: cos_3pi8)
  have a: "solar_azimuth_analytical (3 * pi / 8) pi (pi / 8) (pi / 2) = Fin (2 * pi)"
    by (simp add: solar_azimuth_analytical_def cos_azi_clamped midnight_sun_ratio)
  show ?thesis
    using z d a by simp
qed

lemma azimuth_outside_ratio:
  assumes "\<not> (- 1 \<le> clamped_cosine_ratio lat dec zen \<and> clamped_cosine_ratio lat dec zen \<le> 1)"
  shows "solar_azimuth_analytical lat ha dec zen = NaN"
  using assms by (simp add: solar_azimuth_analytical_def cos_azi_clamped Let_def)

text \<open>
  C10, as amended. With hour angle exactly \<open>0\<close> the azimuth is exactly \<open>\<pi>\<close> when the
  clamped cosine ratio lies in \<open>[-1, 1]\<close>, whatever its value there: the arccosine is a
  number that the zero sign multiplies away. When the ratio lies outside \<open>[-1, 1]\<close> the
  arccosine is NaN and so is the azimuth.
\<close>

theorem solar_azimuth_analytical_noon:
  "solar_azimuth_analytical latitude 0 declination zenith
     = (if - 1 \<le> clamped_cosine_ratio latitude declination zenith
           \<and> clamped_cosine_ratio latitude declination zenith \<le> 1
        then Fin pi else NaN)"
proof (cases "- 1 \<le> clamped_cosine_ratio latitude declination zenith
              \<and> clamped_cosine_ratio latitude declination zenith \<le> 1")
  case True
  then show ?thesis
    using azimuth_of_ratio [of latitude declination zenith 0] by simp
next
  case False
  then show ?thesis
    using azimuth_outside_ratio [of latitude declination zenith 0] by simp
qed

text \<open>
  The witness: latitude \<open>0\<close>, declination and zenith \<open>\<pi>/6\<close> (the sun at noon, north of an
  observer on the equator). The ratio is \<open>-1\<close> and its arccosine is \<open>\<pi>\<close>, not zero: at hour
  angle \<open>1\<close> the same inputs give \<open>2\<pi>\<close>, at hour angle \<open>0\<close> they give \<open>\<pi>\<close>.
\<close>

theorem solar_azimuth_analytical_noon_witness:
  "clamped_cosine_ratio 0 (pi / 6) (pi / 6) = - 1
   \<and> arccos (clamped_cosine_ratio 0 (pi / 6) (pi / 6)) = pi
   \<and> solar_azimuth_analytical 0 1 (pi / 6) (pi / 6) = Fin (2 * pi)
   \<and> solar_azimuth_analytical 0 0 (pi / 6) (pi / 6) = Fin pi"
proof -
  have r: "clamped_cosine_ratio 0 (pi / 6) (pi / 6) = - 1"
    by (simp add: clamped_cosine_ratio_def sin_30)
  have a: "solar_azimuth_analytical 0 1 (pi / 6) (pi / 6) = Fin (2 * pi)"
    using azimuth_of_ratio [of 0 "pi / 6" "pi / 6" 1] by (simp add: r)
  show ?thesis
    using a solar_azimuth_analytical_noon [of 0 "pi / 6" "pi / 6"] by (simp add: r)
qed

text \<open>
  C10 as stated fails: outside \<open>[-1, 1]\<close> the arccosine is NaN, and zero times NaN is
  NaN. With latitude \<open>0\<close>, declination \<open>\<pi>/2\<close> and zenith \<open>\<pi>/6\<close>, all finite, the ratio is
  \<open>-2\<close> and the azimuth at hour angle \<open>0\<close> is NaN, not \<open>\<pi>\<close>.
\<close>

theorem solar_azimuth_analytical_noon_counterexample:
  "cos_azi 0 (pi / 2) (pi / 6) = Fin (- 2)
   \<and> solar_azimuth_analytical 0 0 (pi / 2) (pi / 6) = NaN
   \<and> solar_azimuth_analytical 0 0 (pi / 2) (pi / 6) \<noteq> Fin pi"
  by (simp add: solar_azimuth_analytical_def cos_azi_def Let_def np_where_def sin_30)

subsection \<open>Iterative ephemeris: Kepler's equation\<close>

lemma fold_max_le:
  fixes xs :: "real list"
  assumes "x \<le> c" "\<forall>y\<in>set xs. y \<le> c"
  shows "fold max xs x \<le> c"
  using assms by (induction xs arbitrary: x) simp_all

lemma np_max_le:
  assumes "xs \<noteq> []" "\<forall>y\<in>set xs. y \<le> c"
  shows "\<exists>d. np_max xs = Inr d \<and> d \<le> c"
  using assms by (cases xs) (simp_all add: fold_max_le)

lemma np_max_Inr:
  assumes "xs \<noteq> []"
  shows "\<exists>d. np_max xs = Inr d"
  using assms by (cases xs) simp_all

lemma length_abs_diff: "length (abs_diff xs ys) = min (length xs) (length ys)"
  by (simp add: abs_diff_def)

lemma nth_abs_diff:
  "i < length xs \<Longrightarrow> i < length ys \<Longrightarrow> abs_diff xs ys ! i = \<bar>xs ! i - ys ! i\<bar>"
  by (simp add: abs_diff_def)

lemma length_kepler_update:
  "length (kepler_update M es E) = min (length M) (min (length es) (length E))"
  by (simp add: kepler_update_def)

lemma nth_kepler_update:
  "i < length M \<Longrightarrow> i < length es \<Longrightarrow> i < length E \<Longrightarrow>
   kepler_update M es E ! i = M ! i + degrees (es ! i) * sin (radians (E ! i))"
  by (simp add: kepler_update_def)

lemma sin_lipschitz: "\<bar>sin x - sin y\<bar> \<le> \<bar>x - y\<bar>" for x y :: real
proof -
  have "\<bar>sin x - sin y\<bar> = 2 * \<bar>sin ((x - y) / 2)\<bar> * \<bar>cos ((x + y) / 2)\<bar>"
    by (simp add: sin_diff_sin abs_mult)
  also have "\<dots> \<le> 2 * \<bar>(x - y) / 2\<bar> * 1"
    by (intro mult_mono mult_left_mono abs_sin_x_le_abs_x) simp_all
  finally show ?thesis by simp
qed

lemma update_contracts:
  "\<bar>(M + degrees e * sin (radians x)) - (M + degrees e * sin (radians y))\<bar> \<le> \<bar>e\<bar> * \<bar>x - y\<bar>"
proof -
  have "\<bar>(M + degrees e * sin (radians x)) - (M + degrees e * sin (radians y))\<bar>
          = \<bar>degrees e\<bar> * \<bar>sin (radians x) - sin (radians y)\<bar>"
    by (simp add: abs_mult [symmetric] algebra_simps)
  also have "\<dots> \<le> \<bar>degrees e\<bar> * \<bar>radians x - radians y\<bar>"
    by (intro mult_left_mono sin_lipschitz) simp
  also have "\<dots> = \<bar>e\<bar> * \<bar>x - y\<bar>"
  proof -
    have "degrees e * (radians x - radians y) = e * (x - y)"
      by (simp add: degrees_def radians_def field_simps)
    then show ?thesis by (metis abs_mult)
  qed
  finally show ?thesis .
qed

lemma degrees_bound:
  assumes "\<bar>e\<bar> \<le> 1 / 50"
  shows "\<bar>degrees e * sin (radians x)\<bar> \<le> 9 / 5"
proof -
  have "\<bar>degrees e\<bar> = \<bar>e\<bar> * 180 / pi"
    by (simp add: degrees_def abs_mult)
  also have "\<dots> \<le> (1 / 50) * 180 / pi"
    using assms by (intro divide_right_mono mult_right_mono) simp_all
  also have "\<dots> \<le> (1 / 50) * 180 / 2"
    using pi_ge_two by (intro divide_left_mono) simp_all
  finally have d: "\<bar>degrees e\<bar> \<le> 9 / 5" by simp
  have "\<bar>degrees e * sin (radians x)\<bar> = \<bar>degrees e\<bar> * \<bar>sin (radians x)\<bar>"
    by (rule abs_mult)
  also have "\<dots> \<le> (9 / 5) * 1"
    using d by (intro mult_mono) simp_all
  finally show ?thesis by simp
qed

lemma np_max_abs_diff_le:
  assumes "length xs = length ys" "xs \<noteq> []"
    and "\<forall>i<length xs. \<bar>xs ! i - ys ! i\<bar> \<le> c"
  shows "\<exists>d. np_max (abs_diff xs ys) = Inr d \<and> d \<le> c"
proof (rule np_max_le)
  have "length (abs_diff xs ys) = length xs"
    using assms(1) by (simp add: length_abs_diff)
  then show "abs_diff xs ys \<noteq> []"
    using assms(2) by (metis length_0_conv)
  show "\<forall>y\<in>set (abs_diff xs ys). y \<le> c"
  proof
    fix y assume "y \<in> set (abs_diff xs ys)"
    then obtain i where i: "i < length (abs_diff xs ys)" "y = abs_diff xs ys ! i"
      by (auto simp: in_set_conv_nth)
    then have "i < length xs" "i < length ys"
      by (simp_all add: length_abs_diff)
    then show "y \<le> c"
      using i assms(3) by (simp add: nth_abs_diff)
  qed
qed

lemma kepler_loop_converges:
  assumes "length es = length M" "length E = length M" "M \<noteq> []"
    and "\<forall>e\<in>set es. \<bar>e\<bar> \<le> q" "0 \<le> q" "0 \<le> c"
    and "EA = kepler_update M es E"
    and "\<forall>i<length M. \<bar>EA ! i - E ! i\<bar> \<le> c"
    and "c * q ^ k \<le> 1 / 10000"
  shows "\<exists>r. ephemeris_kepler_loop k M es E EA = Some (Inr r)"
  using assms
proof (induction k arbitrary: E EA c)
  case 0
  have "length EA = length M"
    using 0 by (simp add: length_kepler_update)
  then have len: "length EA = length E" "EA \<noteq> []"
    using 0 by (simp, metis length_0_conv)
  obtain d where d: "np_max (abs_diff EA E) = Inr d" "d \<le> c"
    using np_max_abs_diff_le [OF len, of c] 0 len by auto
  then have "\<not> d > 0.0001" using 0 by simp
  then show ?case
    using d by (subst ephemeris_kepler_loop.simps) simp
next
  case (Suc k)
  have lenM: "length EA = length M"
    using Suc.prems by (simp add: length_kepler_update)
  then have len: "length EA = length E" "EA \<noteq> []" "length EA = length M"
    using Suc.prems by (simp, metis length_0_conv, simp)
  obtain d where d: "np_max (abs_diff EA E) = Inr d"
    using np_max_abs_diff_le [OF len(1,2), of c] Suc.prems len by auto
  show ?case
  proof (cases "d > 0.0001")
    case False
    then show ?thesis
      using d by (subst ephemeris_kepler_loop.simps) simp
  next
    case True
    let ?EA' = "kepler_update M es EA"
    have step: "\<forall>i<length M. \<bar>?EA' ! i - EA ! i\<bar> \<le> c * q"
    proof (intro allI impI)
      fix i assume i: "i < length M"
      have ei: "\<bar>es ! i\<bar> \<le> q"
        using Suc.prems i by (simp add: all_set_conv_all_nth)
      have "\<bar>?EA' ! i - EA ! i\<bar>
              = \<bar>(M ! i + degrees (es ! i) * sin (radians (EA ! i)))
                 - (M ! i + degrees (es ! i) * sin (radians (E ! i)))\<bar>"
        using i Suc.prems len by (simp add: nth_kepler_update)
      also have "\<dots> \<le> \<bar>es ! i\<bar> * \<bar>EA ! i - E ! i\<bar>"
        by (rule update_contracts)
      also have "\<dots> \<le> q * c"
        using ei Suc.prems i by (intro mult_mono) simp_all
      finally show "\<bar>?EA' ! i - EA ! i\<bar> \<le> c * q"
        by (simp add: mult.commute)
    qed
    have "(c * q) * q ^ k \<le> 1 / 10000"
      using Suc.prems by (simp add: mult.assoc)
    then have "\<exists>r. ephemeris_kepler_loop k M es EA ?EA' = Some (Inr r)"
      using Suc.prems len step
      by (intro Suc.IH [where c = "c * q"]) simp_all
    then show ?thesis
      using d True by (subst ephemeris_kepler_loop.simps) simp
  qed
qed


lemma kepler_loop_more_fuel:
  assumes "ephemeris_kepler_loop k M es E EA = Some r"
  shows "ephemeris_kepler_loop (k + j) M es E EA = Some r"
  using assms
proof (induction k arbitrary: E EA)
  case 0
  then show ?case
    by (subst ephemeris_kepler_loop.simps, subst (asm) ephemeris_kepler_loop.simps)
       (auto split: sum.splits if_splits)
next
  case (Suc k)
  show ?case
  proof (cases "np_max (abs_diff EA E)")
    case (Inl err)
    then show ?thesis
      using Suc.prems
      by (subst ephemeris_kepler_loop.simps, subst (asm) ephemeris_kepler_loop.simps) simp
  next
    case (Inr d)
    show ?thesis
    proof (cases "d > 0.0001")
      case False
      then show ?thesis
        using Suc.prems Inr
        by (subst ephemeris_kepler_loop.simps, subst (asm) ephemeris_kepler_loop.simps) simp
    next
      case True
      then have "ephemeris_kepler_loop k M es EA (kepler_update M es EA) = Some r"
        using Suc.prems Inr by (subst (asm) ephemeris_kepler_loop.simps) simp
      then have "ephemeris_kepler_loop (k + j) M es EA (kepler_update M es EA) = Some r"
        by (rule Suc.IH)
      then show ?thesis
        using True Inr by (subst ephemeris_kepler_loop.simps) simp
    qed
  qed
qed

lemma kepler_four_iterations:
  assumes "length es = length M" "M \<noteq> []" "\<forall>e\<in>set es. \<bar>e\<bar> < 0.02"
  shows "\<exists>r. ephemeris_kepler 4 M es = Some (Inr r)"
proof -
  let ?Z = "replicate (length M) (0::real)"
  have "length M = length ?Z" by simp
  then obtain d where d: "np_max (abs_diff M ?Z) = Inr d"
    using np_max_Inr [of "abs_diff M ?Z"] assms(2)
    by (metis length_abs_diff length_0_conv min.idem)
  show ?thesis
  proof (cases "d > 0.0001")
    case False
    then show ?thesis
      unfolding ephemeris_kepler_def using d
      by (subst ephemeris_kepler_loop.simps) simp
  next
    case True
    let ?EA = "kepler_update M es M"
    have q: "\<forall>e\<in>set es. \<bar>e\<bar> \<le> 1 / 50"
      using assms(3) by auto
    have b: "\<forall>i<length M. \<bar>?EA ! i - M ! i\<bar> \<le> 9 / 5"
    proof (intro allI impI)
      fix i assume i: "i < length M"
      have "\<bar>es ! i\<bar> \<le> 1 / 50"
        using q i assms(1) by (simp add: all_set_conv_all_nth)
      then have "\<bar>degrees (es ! i) * sin (radians (M ! i))\<bar> \<le> 9 / 5"
        by (rule degrees_bound)
      then show "\<bar>?EA ! i - M ! i\<bar> \<le> 9 / 5"
        using i assms(1) by (simp add: nth_kepler_update)
    qed
    have n: "(9 / 5) * (1 / 50) ^ 3 \<le> (1 / 10000 :: real)"
      by (simp add: power3_eq_cube)
    have "\<exists>r. ephemeris_kepler_loop 3 M es M ?EA = Some (Inr r)"
      using assms(1,2) q b
      by (intro kepler_loop_converges [where q = "1 / 50" and c = "9 / 5"] n) simp_all
    then show ?thesis
      unfolding ephemeris_kepler_def using d True
      by (subst ephemeris_kepler_loop.simps) (simp add: numeral_eq_Suc)
  qed
qed

lemma kepler_update_circular:
  assumes "length es = length M" "length E = length M" "\<forall>e\<in>set es. e = 0"
  shows "kepler_update M es E = M"
proof (rule nth_equalityI)
  show "length (kepler_update M es E) = length M"
    using assms by (simp add: length_kepler_update)
next
  fix i assume "i < length (kepler_update M es E)"
  then have i: "i < length M"
    by (simp add: length_kepler_update)
  then have "es ! i = 0"
    using assms by (simp add: all_set_conv_all_nth)
  then show "kepler_update M es E ! i = M ! i"
    using i assms by (simp add: nth_kepler_update degrees_def)
qed

text \<open>On an array of size zero the loop condition raises, whatever the eccentricity.\<close>

lemma ephemeris_kepler_empty: "ephemeris_kepler fuel [] [] = Some (Inl ValueError)"
  unfolding ephemeris_kepler_def
  by (subst ephemeris_kepler_loop.simps) (simp add: abs_diff_def)

text \<open>
  C3. With every computed eccentricity exactly zero, the iteration over a non-empty array
  of mean anomalies terminates, after at most one run of the body, and returns an
  eccentric anomaly equal to the mean anomaly.
\<close>

theorem ephemeris_kepler_circular:
  assumes "MeanAnom \<noteq> []" "length Eccen = length MeanAnom" "\<forall>e\<in>set Eccen. e = 0"
  shows "ephemeris_kepler (Suc fuel) MeanAnom Eccen = Some (Inr MeanAnom)"
proof -
  let ?Z = "replicate (length MeanAnom) (0::real)"
  obtain d where d: "np_max (abs_diff MeanAnom ?Z) = Inr d"
    using np_max_Inr [of "abs_diff MeanAnom ?Z"] assms(1)
    by (metis length_abs_diff length_0_conv min.idem length_replicate)
  obtain d' where d': "np_max (abs_diff MeanAnom MeanAnom) = Inr d'" "d' \<le> 0"
    using np_max_abs_diff_le [of MeanAnom MeanAnom 0] assms(1) by auto
  have u: "kepler_update MeanAnom Eccen MeanAnom = MeanAnom"
    using assms by (intro kepler_update_circular) simp_all
  have stop: "ephemeris_kepler_loop fuel MeanAnom Eccen MeanAnom MeanAnom = Some (Inr MeanAnom)"
    using d' by (subst ephemeris_kepler_loop.simps) simp
  show ?thesis
    unfolding ephemeris_kepler_def using d stop u
    by (subst ephemeris_kepler_loop.simps) simp
qed

theorem ephemeris_kepler_circular_witness:
  "[90 :: real] \<noteq> [] \<and> length [0 :: real] = length [90 :: real]
   \<and> ephemeris_kepler (Suc 0) [90] [0] = Some (Inr [90])"
proof -
  have h: "[90 :: real] \<noteq> []" "length [0 :: real] = length [90 :: real]"
    "\<forall>e\<in>set [0 :: real]. e = 0"
    by simp_all
  show ?thesis
    using h ephemeris_kepler_circular [OF h, of 0] by simp
qed

text \<open>
  What the loop returns: after some number \<open>n\<close> of runs of the body, at most the fuel,
  the \<open>n\<close>-th iterate of the update from the starting value, and the largest change from
  the value before it (the \<open>E\<close> of the exit test) is at most \<open>1e-4\<close>.
\<close>

lemma kepler_loop_result:
  assumes "ephemeris_kepler_loop k M es E EA = Some (Inr r)"
  shows "\<exists>n d. n \<le> k \<and> r = (kepler_update M es ^^ n) EA
           \<and> np_max (abs_diff r (if n = 0 then E else (kepler_update M es ^^ (n - 1)) EA)) = Inr d
           \<and> d \<le> 0.0001"
  using assms
proof (induction k arbitrary: E EA)
  case 0
  then obtain d where d: "np_max (abs_diff EA E) = Inr d" "\<not> d > 0.0001" "r = EA"
    by (subst (asm) ephemeris_kepler_loop.simps) (auto split: sum.splits if_splits)
  then have "r = (kepler_update M es ^^ 0) EA
      \<and> np_max (abs_diff r (if (0::nat) = 0 then E else (kepler_update M es ^^ (0 - 1)) EA)) = Inr d
      \<and> d \<le> 0.0001"
    by simp
  then show ?case by blast
next
  case (Suc k)
  show ?case
  proof (cases "np_max (abs_diff EA E)")
    case (Inl err)
    then show ?thesis
      using Suc.prems by (subst (asm) ephemeris_kepler_loop.simps) simp
  next
    case (Inr d)
    show ?thesis
    proof (cases "d > 0.0001")
      case False
      then have "r = EA"
        using Suc.prems Inr by (subst (asm) ephemeris_kepler_loop.simps) simp
      then have "(0::nat) \<le> Suc k \<and> r = (kepler_update M es ^^ 0) EA
          \<and> np_max (abs_diff r (if (0::nat) = 0 then E else (kepler_update M es ^^ (0 - 1)) EA)) = Inr d
          \<and> d \<le> 0.0001"
        using Inr False by simp
      then show ?thesis by blast
    next
      case True
      let ?u = "kepler_update M es"
      have "ephemeris_kepler_loop k M es EA (?u EA) = Some (Inr r)"
        using Suc.prems Inr True by (subst (asm) ephemeris_kepler_loop.simps) simp
      then obtain n d' where n: "n \<le> k" "r = (?u ^^ n) (?u EA)"
        "np_max (abs_diff r (if n = 0 then EA else (?u ^^ (n - 1)) (?u EA))) = Inr d'"
        "d' \<le> 0.0001"
        using Suc.IH by blast
      have p: "(if n = 0 then EA else (?u ^^ (n - 1)) (?u EA)) = (?u ^^ n) EA"
        by (cases n) (simp_all add: funpow_swap1)
      have "Suc n \<le> Suc k \<and> r = (?u ^^ Suc n) EA
          \<and> np_max (abs_diff r (if Suc n = 0 then E else (?u ^^ (Suc n - 1)) EA)) = Inr d'
          \<and> d' \<le> 0.0001"
        using n p by (simp add: funpow_swap1)
      then show ?thesis by blast
    qed
  qed
qed

text \<open>
  C4. With every eccentricity below 0.02 in absolute value, the iteration over a non-empty
  array terminates after at most four runs of the body, fewer than ten: what it returns
  is the \<open>n\<close>-th iterate of the update from the mean anomaly for some \<open>n \<le> 4\<close>, and the
  maximum absolute change between that iterate and the one before it (the zero array, for
  \<open>n = 0\<close>) is at most \<open>1e-4\<close> degrees.
\<close>

theorem ephemeris_kepler_terminates:
  assumes "MeanAnom \<noteq> []" "length Eccen = length MeanAnom" "\<forall>e\<in>set Eccen. \<bar>e\<bar> < 0.02"
  shows "\<exists>n EccenAnom d. n \<le> 4
           \<and> ephemeris_kepler 4 MeanAnom Eccen = Some (Inr EccenAnom)
           \<and> ephemeris_kepler 9 MeanAnom Eccen = Some (Inr EccenAnom)
           \<and> EccenAnom = (kepler_update MeanAnom Eccen ^^ n) MeanAnom
           \<and> np_max (abs_diff EccenAnom
                 (if n = 0 then replicate (length MeanAnom) 0
                  else (kepler_update MeanAnom Eccen ^^ (n - 1)) MeanAnom)) = Inr d
           \<and> d \<le> 0.0001"
proof -
  obtain r where r: "ephemeris_kepler 4 MeanAnom Eccen = Some (Inr r)"
    using kepler_four_iterations [OF assms(2,1,3)] by blast
  then have "ephemeris_kepler (4 + 5) MeanAnom Eccen = Some (Inr r)"
    unfolding ephemeris_kepler_def by (rule kepler_loop_more_fuel)
  then have r9: "ephemeris_kepler 9 MeanAnom Eccen = Some (Inr r)"
    by simp
  obtain n d where n: "n \<le> 4" "r = (kepler_update MeanAnom Eccen ^^ n) MeanAnom"
    "np_max (abs_diff r (if n = 0 then replicate (length MeanAnom) 0
                          else (kepler_update MeanAnom Eccen ^^ (n - 1)) MeanAnom)) = Inr d"
    "d \<le> 0.0001"
    using kepler_loop_result [OF r [unfolded ephemeris_kepler_def]] by blast
  show ?thesis
    using r r9 n by blast
qed

theorem ephemeris_kepler_terminates_witness:
  "[90 :: real] \<noteq> [] \<and> length [0.0167 :: real] = length [90 :: real]
   \<and> \<bar>0.0167 :: real\<bar> < 0.02
   \<and> (\<exists>n EccenAnom d. n \<le> 4
           \<and> ephemeris_kepler 4 [90] [0.0167] = Some (Inr EccenAnom)
           \<and> ephemeris_kepler 9 [90] [0.0167] = Some (Inr EccenAnom)
           \<and> EccenAnom = (kepler_update [90] [0.0167] ^^ n) [90]
           \<and> np_max (abs_diff EccenAnom
                 (if n = 0 then replicate (length [90 :: real]) 0
                  else (kepler_update [90] [0.0167] ^^ (n - 1)) [90])) = Inr d
           \<and> d \<le> 0.0001)"
proof -
  have h: "[90 :: real] \<noteq> []" "length [0.0167 :: real] = length [90 :: real]"
    "\<forall>e\<in>set [0.0167 :: real]. \<bar>e\<bar> < 0.02"
    by simp_all
  show ?thesis
    using ephemeris_kepler_terminates [OF h] by simp
qed

subsection \<open>Iterative ephemeris: refraction\<close>

lemma ephemeris_refract_eq: "ephemeris_refract el = refraction_piecewise el"
  by (simp add: ephemeris_refract_def refraction_piecewise_def Let_def)

text \<open>
  C6. The refraction term is the piecewise formula: a rational function of
  \<open>tan(elevation)\<close> on \<open>(5, 85]\<close>, a quartic polynomial on \<open>(-0.575, 5]\<close>,
  \<open>-20.774 / tan(elevation)\<close> on \<open>(-1, -0.575]\<close>, zero elsewhere. It is scaled by
  \<open>(283 / (273 + temperature)) * (pressure / 101325) / 3600\<close> and added to the geometric
  elevation; with pressure \<open>0\<close> the apparent elevation is the geometric one. (The scale
  factor exists when \<open>273 + temperature\<close> is not zero.)
\<close>

theorem ephemeris_refraction_piecewise:
  assumes "273 + temperature \<noteq> 0"
  shows "ephemeris_refract SunEl = refraction_piecewise SunEl
     \<and> ephemeris_apparent_elevation SunEl temperature pressure
         = Inr (SunEl + refraction_piecewise SunEl
                        * ((283 / (273 + temperature)) * (pressure / 101325) / 3600))
     \<and> ephemeris_apparent_elevation SunEl temperature 0 = Inr SunEl"
  using assms by (simp add: ephemeris_apparent_elevation_def ephemeris_refract_eq Let_def)

theorem ephemeris_refraction_piecewise_witness:
  "273 + (12 :: real) \<noteq> 0
   \<and> ephemeris_apparent_elevation 0 12 101325 = Inr (1735 * (283 / 285) / 3600)
   \<and> ephemeris_apparent_elevation 0 12 0 = Inr 0"
  using ephemeris_refraction_piecewise [of 12 0 101325] by (simp add: refraction_piecewise_def)

subsection \<open>Time and angle converters\<close>

lemma wrap64_id: "- (2 ^ 63) \<le> x \<Longrightarrow> x < 2 ^ 63 \<Longrightarrow> wrap64 x = x"
  by (simp add: wrap64_def)

lemma wrap64_diff_left: "wrap64 (wrap64 a - b) = wrap64 (a - b)"
proof -
  have "(wrap64 a - b + 2 ^ 63) mod 2 ^ 64 = ((a + 2 ^ 63) mod 2 ^ 64 - b) mod 2 ^ 64"
    by (simp add: wrap64_def)
  also have "\<dots> = (a + 2 ^ 63 - b) mod 2 ^ 64"
    by (rule mod_diff_left_eq)
  also have "a + 2 ^ 63 - b = a - b + 2 ^ 63" by simp
  finally show ?thesis by (simp add: wrap64_def)
qed

lemma mod_day_bounds: "0 \<le> w mod NS_PER_DAY" "w mod NS_PER_DAY < NS_PER_DAY"
  by (simp_all add: NS_PER_DAY_def)

lemma hours_after_midnight:
  "times_to_hours_after_local_midnight tz t
     = real_of_int (tz_localize_None tz t mod NS_PER_DAY) / NS_PER_HR"
proof -
  let ?w = "tz_localize_None tz t"
  have "?w - normalize_naive ?w = ?w mod NS_PER_DAY"
    by (simp add: normalize_naive_def)
  moreover have "wrap64 (?w mod NS_PER_DAY) = ?w mod NS_PER_DAY"
    using mod_day_bounds [of ?w] by (intro wrap64_id) (simp_all add: NS_PER_DAY_def)
  ultimately show ?thesis
    by (simp add: times_to_hours_after_local_midnight_def Let_def)
qed

lemma hrs_minus_tzs_value:
  assumes "localoffset tz (normalize_naive (tz_localize_None tz t)) = utcoffset tz t"
    and "\<bar>utcoffset tz t\<bar> \<le> NS_PER_DAY"
  shows "wrap64 (wrap64 (wrap64 (2 * t) - normalize_aware tz t) - tz_localize_None tz t)
           = tz_localize_None tz t mod NS_PER_DAY - utcoffset tz t"
proof -
  let ?w = "tz_localize_None tz t"
  have v: "2 * t - normalize_aware tz t - ?w = ?w mod NS_PER_DAY - utcoffset tz t"
    using assms(1)
    by (simp add: normalize_aware_def Let_def normalize_naive_def tz_localize_None_def)
  have "wrap64 (wrap64 (wrap64 (2 * t) - normalize_aware tz t) - ?w)
          = wrap64 (2 * t - normalize_aware tz t - ?w)"
    by (simp add: wrap64_diff_left)
  also have "\<dots> = wrap64 (?w mod NS_PER_DAY - utcoffset tz t)"
    by (simp only: v)
  also have "\<dots> = ?w mod NS_PER_DAY - utcoffset tz t"
    using mod_day_bounds [of ?w] assms(2)
    by (intro wrap64_id) (simp_all add: NS_PER_DAY_def)
  finally show ?thesis .
qed

lemma hour_angle_value:
  assumes "localoffset tz (normalize_naive (tz_localize_None tz t)) = utcoffset tz t"
    and "\<bar>utcoffset tz t\<bar> \<le> NS_PER_DAY"
  shows "hour_angle tz t lon eot
           = 15 * (times_to_hours_after_local_midnight tz t
                   - real_of_int (utcoffset tz t) / NS_PER_HR - 12) + lon + eot / 4"
  unfolding hour_angle_def Let_def hrs_minus_tzs_value [OF assms] hours_after_midnight
  by (simp add: NS_PER_HR_def field_simps)

lemma hour_angle_utc_day:
  assumes "localoffset tz (normalize_naive (tz_localize_None tz t)) = utcoffset tz t"
    and "\<bar>utcoffset tz t\<bar> \<le> NS_PER_DAY"
  shows "hour_angle tz t lon eot
           = 15 * (real_of_int t / NS_PER_HR - 24 * real_of_int (local_day tz t) - 12)
             + lon + eot / 4"
proof -
  let ?w = "tz_localize_None tz t"
  have "?w mod NS_PER_DAY = ?w - NS_PER_DAY * (?w div NS_PER_DAY)"
    by (simp add: minus_mult_div_eq_mod)
  then have "?w mod NS_PER_DAY - utcoffset tz t = t - NS_PER_DAY * local_day tz t"
    by (simp add: local_day_def tz_localize_None_def)
  then have "real_of_int (?w mod NS_PER_DAY - utcoffset tz t)
               = real_of_int t - real_of_int NS_PER_DAY * real_of_int (local_day tz t)"
    by simp
  then show ?thesis
    unfolding hour_angle_def Let_def hrs_minus_tzs_value [OF assms]
    by (simp add: NS_PER_HR_def NS_PER_DAY_def field_simps)
qed

text \<open>
  C2, as amended. For a timestamp whose UTC offset is the one that localization gives to
  the midnight of its local day (no change of offset between that midnight and the
  instant), \<^const>\<open>hour_angle\<close> returns 15 degrees times (wall-clock hours since local
  midnight, minus the UTC offset in hours, minus 12), plus longitude, plus a quarter of the
  equation of time. Two such representations of one instant in different timezones give
  hour angles that differ by 360 degrees times the difference of their local day numbers:
  they agree when the local calendar dates agree.
\<close>

theorem hour_angle_formula:
  assumes "localoffset tz (normalize_naive (tz_localize_None tz t)) = utcoffset tz t"
    and "\<bar>utcoffset tz t\<bar> \<le> NS_PER_DAY"
    and "localoffset tz' (normalize_naive (tz_localize_None tz' t)) = utcoffset tz' t"
    and "\<bar>utcoffset tz' t\<bar> \<le> NS_PER_DAY"
  shows "hour_angle tz t lon eot
           = 15 * (times_to_hours_after_local_midnight tz t
                   - real_of_int (utcoffset tz t) / NS_PER_HR - 12) + lon + eot / 4
       \<and> hour_angle tz t lon eot - hour_angle tz' t lon eot
           = 360 * real_of_int (local_day tz' t - local_day tz t)"
  using hour_angle_value [OF assms(1,2)]
  by (simp add: hour_angle_utc_day [OF assms(1,2)] hour_angle_utc_day [OF assms(3,4)])

text \<open>
  The witness: 21 June 2023, 02:00 UTC, seen in UTC and at a fixed offset of \<open>-6 h\<close>,
  where it is 20:00 of the day before.
\<close>

theorem hour_angle_formula_witness:
  "localoffset UTC (normalize_naive (tz_localize_None UTC (seconds_ns 1687312800)))
     = utcoffset UTC (seconds_ns 1687312800)
   \<and> \<bar>utcoffset UTC (seconds_ns 1687312800)\<bar> \<le> NS_PER_DAY
   \<and> localoffset (fixed_offset (hours_ns (- 6)))
        (normalize_naive (tz_localize_None (fixed_offset (hours_ns (- 6))) (seconds_ns 1687312800)))
     = utcoffset (fixed_offset (hours_ns (- 6))) (seconds_ns 1687312800)
   \<and> \<bar>utcoffset (fixed_offset (hours_ns (- 6))) (seconds_ns 1687312800)\<bar> \<le> NS_PER_DAY
   \<and> hour_angle UTC (seconds_ns 1687312800) (- 105) 0
       - hour_angle (fixed_offset (hours_ns (- 6))) (seconds_ns 1687312800) (- 105) 0
       = 360 * real_of_int (local_day (fixed_offset (hours_ns (- 6))) (seconds_ns 1687312800)
                            - local_day UTC (seconds_ns 1687312800))
   \<and> local_day UTC (seconds_ns 1687312800) = 19529
   \<and> local_day (fixed_offset (hours_ns (- 6))) (seconds_ns 1687312800) = 19528"
proof -
  have h: "localoffset UTC (normalize_naive (tz_localize_None UTC (seconds_ns 1687312800)))
             = utcoffset UTC (seconds_ns 1687312800)"
    "\<bar>utcoffset UTC (seconds_ns 1687312800)\<bar> \<le> NS_PER_DAY"
    "localoffset (fixed_offset (hours_ns (- 6)))
        (normalize_naive (tz_localize_None (fixed_offset (hours_ns (- 6))) (seconds_ns 1687312800)))
       = utcoffset (fixed_offset (hours_ns (- 6))) (seconds_ns 1687312800)"
    "\<bar>utcoffset (fixed_offset (hours_ns (- 6))) (seconds_ns 1687312800)\<bar> \<le> NS_PER_DAY"
    by (simp_all add: UTC_def fixed_offset_def hours_ns_def NS_PER_DAY_def)
  have d: "local_day UTC (seconds_ns 1687312800) = 19529"
    "local_day (fixed_offset (hours_ns (- 6))) (seconds_ns 1687312800) = 19528"
    by (simp_all add: local_day_def tz_localize_None_def UTC_def fixed_offset_def
        hours_ns_def seconds_ns_def NS_PER_DAY_def)
  show ?thesis
    using h d hour_angle_formula [OF h, of "- 105" 0] by simp
qed

text \<open>
  C2 as stated fails in its consequence: the same instant, 21 June 2023 02:00 UTC, has hour
  angle \<open>-255\<close> degrees when the index is in UTC and \<open>105\<close> degrees when it is at the
  fixed offset \<open>-6 h\<close>, at longitude \<open>-105\<close> with equation of time \<open>0\<close>. The function
  does not reduce the angle modulo 360 degrees.
\<close>

theorem hour_angle_formula_counterexample:
  "hour_angle UTC (seconds_ns 1687312800) (- 105) 0 = - 255
   \<and> hour_angle (fixed_offset (hours_ns (- 6))) (seconds_ns 1687312800) (- 105) 0 = 105
   \<and> hour_angle UTC (seconds_ns 1687312800) (- 105) 0
       \<noteq> hour_angle (fixed_offset (hours_ns (- 6))) (seconds_ns 1687312800) (- 105) 0"
  by (simp add: hour_angle_def UTC_def fixed_offset_def Let_def normalize_aware_def
      normalize_naive_def tz_localize_None_def seconds_ns_def hours_ns_def NS_PER_DAY_def
      NS_PER_HR_def wrap64_def)

text \<open>
  Where the offset does not change between local midnight and the instant, the two
  converters are inverse to each other.
\<close>

lemma hour_angle_round_trip_same_offset:
  assumes "localoffset tz (normalize_naive (tz_localize_None tz t)) = utcoffset tz t"
    and "\<bar>utcoffset tz t\<bar> \<le> NS_PER_DAY"
  shows "hour_angle_to_hours tz t (Fin (hour_angle tz t lon eot)) lon eot
           = Fin (times_to_hours_after_local_midnight tz t)"
proof -
  have "wrap64 (tz_localize_None tz t - t) = utcoffset tz t"
    using assms(2) by (simp add: tz_localize_None_def NS_PER_DAY_def wrap64_id)
  then show ?thesis
    unfolding hour_angle_to_hours_def Let_def hour_angle_value [OF assms]
    by (simp add: np_sub_def NS_PER_HR_def field_simps)
qed

text \<open>
  C1: the round trip through \<^const>\<open>hour_angle\<close> and \<^const>\<open>hour_angle_to_hours\<close> should
  give back the hours since local midnight. On the day of a change of offset it does not.
  For 12 March 2023, 12:00 in \<^verbatim>\<open>America/Denver\<close> (18:00 UTC, ten hours after the clocks
  went forward), at longitude \<open>-105\<close> with equation of time \<open>0\<close>:
  \<^const>\<open>hour_angle\<close> subtracts the UTC instant of local midnight, taken at the old
  offset, and returns \<open>-30\<close> degrees where \<open>15 * (12 + 6 - 12) - 105 = -15\<close> is due; the
  round trip returns 11 hours, and \<^const>\<open>times_to_hours_after_local_midnight\<close> returns 12.
\<close>

theorem hour_angle_round_trip_dst:
  "hour_angle America_Denver_2023 (seconds_ns 1678644000) (- 105) 0 = - 30
   \<and> hour_angle_to_hours America_Denver_2023 (seconds_ns 1678644000)
        (Fin (hour_angle America_Denver_2023 (seconds_ns 1678644000) (- 105) 0)) (- 105) 0 = Fin 11
   \<and> times_to_hours_after_local_midnight America_Denver_2023 (seconds_ns 1678644000) = 12"
  by (simp add: hour_angle_def hour_angle_to_hours_def times_to_hours_after_local_midnight_def
      America_Denver_2023_def Let_def normalize_aware_def np_sub_def
      normalize_naive_def tz_localize_None_def seconds_ns_def hours_ns_def NS_PER_DAY_def
      NS_PER_HR_def wrap64_def)

subsection \<open>Geometric sunrise, sunset and transit\<close>

lemma polar_night_argument: "1 < - tan (radians (- 23.45)) * tan (radians 75)"
proof -
  let ?a = "radians 23.45" and ?b = "radians 15"
  have b: "0 < ?b" "?b < ?a" "?a < pi / 2"
    by (simp_all add: radians_def)
  have tb: "0 < tan ?b"
    using b by (intro tan_gt_zero) simp_all
  have lt: "tan ?b < tan ?a"
    using b by (intro tan_monotone) simp_all
  have "radians 75 = pi / 2 - ?b"
    by (simp add: radians_def)
  then have t75: "tan (radians 75) = 1 / tan ?b"
    by (simp only: tan_cot inverse_eq_divide)
  have "radians (- 23.45) = - ?a"
    by (simp add: radians_def)
  then have tm: "tan (radians (- 23.45)) = - tan ?a"
    by (simp only: tan_minus)
  have "1 < tan ?a / tan ?b"
    using tb lt by simp
  then show ?thesis
    unfolding t75 tm by simp
qed

lemma hour_angle_to_hours_NaN: "hour_angle_to_hours tz t NaN lon eot = NaN"
  by (simp add: hour_angle_to_hours_def np_sub_def Let_def)

lemma local_times_from_hours_NaN:
  "local_times_from_hours_since_midnight indef tz t NaN
     = astype_datetime64 (wrap64 (normalize_naive (tz_localize_None tz t) + indef))"
  by (simp add: local_times_from_hours_since_midnight_def astype_int64_def Let_def)

lemma solstice_midnight:
  "normalize_naive (tz_localize_None UTC (seconds_ns 1703160000)) = 1703116800000000000"
  by (simp add: normalize_naive_def tz_localize_None_def UTC_def fixed_offset_def
      seconds_ns_def NS_PER_DAY_def)

lemma solstice_transit_hour:
  "hour_angle_to_hours UTC (seconds_ns 1703160000) (Fin 0) 0 0 = Fin 12"
  by (simp add: hour_angle_to_hours_def np_sub_def Let_def tz_localize_None_def UTC_def
      fixed_offset_def wrap64_def)

lemma solstice_transit_time:
  "local_times_from_hours_since_midnight x86_64_indefinite UTC (seconds_ns 1703160000) (Fin 12)
     = Datetime 1703160000000000000"
  unfolding local_times_from_hours_since_midnight_def Let_def solstice_midnight
  by (simp add: astype_int64_def NS_PER_HR_def wrap64_def astype_datetime64_def)

lemma sun_rise_set_transit_geometric_angles:
  "sun_rise_set_transit_geometric indef tz t latitude longitude declination eot
     = (local_times_from_hours_since_midnight indef tz t
          (hour_angle_to_hours tz t (np_neg (sunset_hour_angle latitude declination)) longitude eot),
        local_times_from_hours_since_midnight indef tz t
          (hour_angle_to_hours tz t (sunset_hour_angle latitude declination) longitude eot),
        local_times_from_hours_since_midnight indef tz t
          (hour_angle_to_hours tz t (Fin 0) longitude eot))"
  by (simp add: sun_rise_set_transit_geometric_def sunset_hour_angle_def Let_def)

text \<open>
  Whenever \<open>-tan(declination) * tan(latitude)\<close> lies outside \<open>[-1, 1]\<close>, the sunset hour
  angle is NaN and so are the sunrise and sunset hours; the timestamps returned for them
  are local midnight plus whatever integer the cast of NaN produces.
\<close>

lemma polar_sunrise_is_cast_of_NaN:
  assumes "\<not> (- 1 \<le> - tan declination * tan (radians latitude)
              \<and> - tan declination * tan (radians latitude) \<le> 1)"
  shows "sunset_hour_angle latitude declination = NaN"
    and "sun_rise_set_transit_geometric indef tz t latitude longitude declination eot
           = (astype_datetime64 (wrap64 (normalize_naive (tz_localize_None tz t) + indef)),
              astype_datetime64 (wrap64 (normalize_naive (tz_localize_None tz t) + indef)),
              local_times_from_hours_since_midnight indef tz t
                (hour_angle_to_hours tz t (Fin 0) longitude eot))"
proof -
  have n: "np_arccos (Fin (- tan declination * tan (radians latitude))) = NaN"
    using assms by (simp only: np_arccos.simps if_False)
  show "sunset_hour_angle latitude declination = NaN"
    unfolding sunset_hour_angle_def n by (simp add: np_degrees_def)
  show "sun_rise_set_transit_geometric indef tz t latitude longitude declination eot
           = (astype_datetime64 (wrap64 (normalize_naive (tz_localize_None tz t) + indef)),
              astype_datetime64 (wrap64 (normalize_naive (tz_localize_None tz t) + indef)),
              local_times_from_hours_since_midnight indef tz t
                (hour_angle_to_hours tz t (Fin 0) longitude eot))"
    unfolding sun_rise_set_transit_geometric_def Let_def n
    by (simp add: np_degrees_def hour_angle_to_hours_NaN local_times_from_hours_NaN)
qed

text \<open>
  C7: in the polar night the NaN of the sunset hour angle should reach the returned sunrise
  and sunset as missing timestamps. It reaches the hours, and is lost in the cast to
  \<^verbatim>\<open>int64\<close>. For latitude 75 degrees north, declination \<open>-23.45\<close> degrees and
  21 December 2023 12:00 UTC (longitude and equation of time \<open>0\<close>): the sunset hour angle
  and the sunset hour are NaN; where the cast of NaN gives \<open>-2^63\<close> (x86-64), sunrise and
  sunset are the timestamp \<open>-7520255236854775808 ns\<close>, a day of the year 1731; where it
  gives \<open>0\<close>, they are the local midnight of the day. Neither is NaT.
\<close>

theorem sun_rise_set_transit_geometric_polar:
  "sunset_hour_angle 75 (radians (- 23.45)) = NaN
   \<and> hour_angle_to_hours UTC (seconds_ns 1703160000)
        (sunset_hour_angle 75 (radians (- 23.45))) 0 0 = NaN
   \<and> sun_rise_set_transit_geometric x86_64_indefinite UTC (seconds_ns 1703160000)
        75 0 (radians (- 23.45)) 0
       = (Datetime (- 7520255236854775808), Datetime (- 7520255236854775808),
          Datetime 1703160000000000000)
   \<and> sun_rise_set_transit_geometric 0 UTC (seconds_ns 1703160000)
        75 0 (radians (- 23.45)) 0
       = (Datetime 1703116800000000000, Datetime 1703116800000000000,
          Datetime 1703160000000000000)"
proof -
  have out: "\<not> (- 1 \<le> - tan (radians (- 23.45)) * tan (radians 75)
              \<and> - tan (radians (- 23.45)) * tan (radians 75) \<le> 1)"
    using polar_night_argument by linarith
  have a: "sunset_hour_angle 75 (radians (- 23.45)) = NaN"
    using out by (rule polar_sunrise_is_cast_of_NaN(1))
  have x: "astype_datetime64 (wrap64 (1703116800000000000 + x86_64_indefinite))
             = Datetime (- 7520255236854775808)"
    by (simp add: x86_64_indefinite_def wrap64_def astype_datetime64_def)
  have z: "astype_datetime64 (wrap64 (1703116800000000000 + 0)) = Datetime 1703116800000000000"
    by (simp add: wrap64_def astype_datetime64_def)
  have t0: "local_times_from_hours_since_midnight 0 UTC (seconds_ns 1703160000) (Fin 12)
             = Datetime 1703160000000000000"
    unfolding local_times_from_hours_since_midnight_def Let_def solstice_midnight
    by (simp add: astype_int64_def NS_PER_HR_def wrap64_def astype_datetime64_def)
  show ?thesis
    unfolding polar_sunrise_is_cast_of_NaN(2) [OF out] a hour_angle_to_hours_NaN solstice_midnight solstice_transit_hour solstice_transit_time t0 x z
    by simp
qed

end
